theory Spec2Isabelle
  imports Main "HOL-Library.AList"
begin

section \<open>JavaScript values\<close>

text \<open>
  The three queue handlers of \<^verbatim>\<open>src/server/routes.ts\<close> read their input from a parsed
  JSON body (\<^verbatim>\<open>req.body\<close>, typed \<^verbatim>\<open>any\<close>) and test it with JavaScript's truthiness
  (\<^verbatim>\<open>!x\<close>), strict equality (\<^verbatim>\<open>===\<close>) and \<^verbatim>\<open>Array.prototype.includes\<close>. The values are
  modelled as a datatype: the JSON values, \<^verbatim>\<open>undefined\<close> (a field that is absent) and the
  \<^verbatim>\<open>Date\<close> objects the sync handler creates (\<open>None\<close> is an invalid date). JSON numbers
  are modelled as integers.
\<close>

datatype jsval =
    Undefined
  | Null
  | JBool bool
  | JNum int
  | JStr string
  | JArr "jsval list"
  | JObj "(string \<times> jsval) list"
  | JDate "int option"

text \<open>\<^verbatim>\<open>!v\<close> is true exactly for the falsy values: undefined, null, false, 0 and "".\<close>

fun truthy :: "jsval \<Rightarrow> bool" where
  "truthy Undefined = False"
| "truthy Null = False"
| "truthy (JBool b) = b"
| "truthy (JNum n) = (n \<noteq> 0)"
| "truthy (JStr s) = (s \<noteq> [])"
| "truthy (JArr _) = True"
| "truthy (JObj _) = True"
| "truthy (JDate _) = True"

text \<open>
  \<^verbatim>\<open>a === b\<close>: primitives are compared by value; arrays, objects and dates are compared by
  reference, and a value of the request body is never the same reference as a value of the
  loaded queue data, so every such comparison is false. \<^verbatim>\<open>includes\<close> uses the same
  comparison (the values hold no NaN).
\<close>

fun strict_eq :: "jsval \<Rightarrow> jsval \<Rightarrow> bool" where
  "strict_eq (JArr _) _ = False"
| "strict_eq (JObj _) _ = False"
| "strict_eq (JDate _) _ = False"
| "strict_eq a b = (a = b)"

definition array_includes :: "jsval list \<Rightarrow> jsval \<Rightarrow> bool" where
  "array_includes xs v = list_ex (\<lambda>x. strict_eq x v) xs"

text \<open>
  A TypeError that a step throws. The handlers catch every exception in one \<^verbatim>\<open>catch\<close>
  and never look at it, so one value stands for all of them.
\<close>

datatype thrown = Thrown

text \<open>\<^verbatim>\<open>xs.findIndex(p)\<close>; \<open>None\<close> stands for the result \<^verbatim>\<open>-1\<close>.\<close>

fun findIndex :: "('a \<Rightarrow> bool) \<Rightarrow> 'a list \<Rightarrow> nat option" where
  "findIndex p [] = None"
| "findIndex p (x # xs) = (if p x then Some 0 else map_option Suc (findIndex p xs))"

section \<open>Orders and the queue data\<close>

text \<open>
  An order is a JSON object: its fields in order, each with its value. Reading a field
  that is absent gives \<^verbatim>\<open>undefined\<close>; assigning a field replaces its value in place or
  appends the field, as an assignment and the object spread
  \<^verbatim>\<open>{...order, createdAt: v}\<close> do. The stored orders and the order of an add-and-notify
  request are objects, as the data model of the specification has them (section 3); the
  values of their fields are arbitrary. The elements of a submitted orders array are
  arbitrary values.
\<close>

type_synonym order = "(string \<times> jsval) list"

definition get_field :: "order \<Rightarrow> string \<Rightarrow> jsval" where
  "get_field ob k = (case map_of ob k of None \<Rightarrow> Undefined | Some v \<Rightarrow> v)"

definition set_field :: "order \<Rightarrow> string \<Rightarrow> jsval \<Rightarrow> order" where
  "set_field ob k v = AList.update k v ob"

text \<open>
  The own enumerable fields of a value that is an object, as a property read, an
  assignment and the object spread see them: the fields of an object, the elements of an
  array under their indices in decimal, and none for a date. Null, undefined and the
  primitive values have none (\<open>None\<close>).
\<close>

fun decimal :: "nat \<Rightarrow> string" where
  "decimal n =
     (if n < 10 then [''0123456789'' ! n]
      else decimal (n div 10) @ [''0123456789'' ! (n mod 10)])"

definition index_fields :: "jsval list \<Rightarrow> order" where
  "index_fields xs = zip (map decimal [0..<length xs]) xs"

fun own_fields :: "jsval \<Rightarrow> order option" where
  "own_fields (JObj fs) = Some fs"
| "own_fields (JArr xs) = Some (index_fields xs)"
| "own_fields (JDate _) = Some []"
| "own_fields _ = None"

text \<open>
  \<^verbatim>\<open>v.k\<close> for the names the handlers read (\<^verbatim>\<open>id\<close>, \<^verbatim>\<open>createdAt\<close>), which no prototype
  defines: on null and undefined the read throws, on every other value it gives the own
  field of that name or \<^verbatim>\<open>undefined\<close>.
\<close>

definition field_of :: "jsval \<Rightarrow> string \<Rightarrow> jsval" where
  "field_of v k = (case own_fields v of None \<Rightarrow> Undefined | Some fs \<Rightarrow> get_field fs k)"

fun get_property :: "jsval \<Rightarrow> string \<Rightarrow> thrown + jsval" where
  "get_property Undefined k = Inl Thrown"
| "get_property Null k = Inl Thrown"
| "get_property v k = Inr (field_of v k)"

text \<open>
  The conversion of a JSON value to a primitive (\<^verbatim>\<open>ToPrimitive\<close>, which
  \<^verbatim>\<open>new Date(v)\<close> applies to a value that is not a date) throws a TypeError exactly in
  these cases. An object converts through the \<^verbatim>\<open>valueOf\<close> and \<^verbatim>\<open>toString\<close> it finds:
  the inherited \<^verbatim>\<open>valueOf\<close> returns the object itself, an own field is never a function,
  so the conversion succeeds through the inherited \<^verbatim>\<open>toString\<close> unless an own field
  named \<^verbatim>\<open>toString\<close> hides it. An array converts through \<^verbatim>\<open>join\<close>, which converts
  every element that is neither null nor undefined to a string, under the same rule.
  Primitive values and dates convert without an exception.
\<close>

fun conversion_throws :: "jsval \<Rightarrow> bool" where
  "conversion_throws (JObj fs) = (''toString'' \<in> set (map fst fs))"
| "conversion_throws (JArr xs) = list_ex conversion_throws xs"
| "conversion_throws _ = False"

text \<open>
  \<^verbatim>\<open>xs.map(f)\<close> and \<^verbatim>\<open>xs.filter(p)\<close> with a callback that may throw: the elements are
  visited in order and the first exception ends the call.
\<close>

fun map_throwing :: "('a \<Rightarrow> thrown + 'b) \<Rightarrow> 'a list \<Rightarrow> thrown + 'b list" where
  "map_throwing f [] = Inr []"
| "map_throwing f (x # xs) =
     (case f x of
        Inl t \<Rightarrow> Inl t
      | Inr y \<Rightarrow> (case map_throwing f xs of Inl t \<Rightarrow> Inl t | Inr ys \<Rightarrow> Inr (y # ys)))"

fun filter_throwing :: "('a \<Rightarrow> thrown + bool) \<Rightarrow> 'a list \<Rightarrow> thrown + 'a list" where
  "filter_throwing p [] = Inr []"
| "filter_throwing p (x # xs) =
     (case p x of
        Inl t \<Rightarrow> Inl t
      | Inr b \<Rightarrow>
          (case filter_throwing p xs of
             Inl t \<Rightarrow> Inl t
           | Inr ys \<Rightarrow> Inr (if b then x # ys else ys)))"

text \<open>
  The queue data of \<^verbatim>\<open>loadQueueData\<close> and \<^verbatim>\<open>saveQueueData\<close>, with the three fields the
  handlers read and write.
\<close>

record queue_data =
  orders :: "order list"
  currentPrefix :: jsval
  currentNumber :: jsval

definition order_ids :: "queue_data \<Rightarrow> jsval list" where
  "order_ids q = map (\<lambda>ord. get_field ord ''id'') (orders q)"

text \<open>
  Modelled from the spec: the module \<^verbatim>\<open>./queue-storage\<close> (\<^verbatim>\<open>loadQueueData\<close>,
  \<^verbatim>\<open>saveQueueData\<close>) is not among the sources. Section 4.2 of the specification gives
  \<^verbatim>\<open>load() -> QueueState\<close> and \<^verbatim>\<open>save(state) -> void\<close> on the full durable snapshot:
  loading returns the stored document and saving replaces it. The first argument of
  \<open>saveQueueData\<close> is the document to store, the second the stored one.
\<close>

definition loadQueueData :: "queue_data \<Rightarrow> queue_data" where
  "loadQueueData disk = disk"

definition saveQueueData :: "queue_data \<Rightarrow> queue_data \<Rightarrow> queue_data" where
  "saveQueueData queueData disk = queueData"

text \<open>
  Modelled from the spec: the fresh state that loading gives on a cold start (section 4.2:
  a default prefix, number 1, no orders); the default prefix is a parameter.
\<close>

definition fresh_queue :: "jsval \<Rightarrow> queue_data" where
  "fresh_queue p = \<lparr>orders = [], currentPrefix = p, currentNumber = JNum 1\<rparr>"

section \<open>The environment of a request\<close>

text \<open>
  The channel adapters (\<^verbatim>\<open>emailService\<close>, \<^verbatim>\<open>whatsappService\<close>) are external: each call
  returns a promise that is fulfilled with a value or rejected. What each adapter does on
  each call is a parameter of the model, as are the clock (\<^verbatim>\<open>new Date()\<close>) and the time
  value that \<^verbatim>\<open>new Date(v)\<close> gives for a value \<open>v\<close> that is not a date and converts to
  a primitive.
\<close>

datatype promise = Fulfilled jsval | Rejects

record env =
  clock :: int
  date_ctor :: "jsval \<Rightarrow> int option"
  sendNewOrderNotification :: "jsval \<Rightarrow> promise"
  notifyAdminsAboutNewOrder :: "order \<Rightarrow> promise"
  notifyCustomerAboutOrder :: "order \<Rightarrow> jsval \<Rightarrow> promise"
  notifyCustomerAboutStatusUpdate :: "order \<Rightarrow> jsval \<Rightarrow> promise"

text \<open>
  \<^verbatim>\<open>await p\<close> gives the value of a fulfilled promise and throws on a rejected one;
  \<^verbatim>\<open>p.catch(e => null)\<close> turns a rejection into the value null;
  \<^verbatim>\<open>Promise.allSettled(ps)\<close> is fulfilled with one record per promise, whatever the
  promises do.
\<close>

fun await :: "promise \<Rightarrow> thrown + jsval" where
  "await (Fulfilled v) = Inr v"
| "await Rejects = Inl Thrown"

fun catch_null :: "promise \<Rightarrow> promise" where
  "catch_null (Fulfilled v) = Fulfilled v"
| "catch_null Rejects = Fulfilled Null"

fun settled :: "promise \<Rightarrow> jsval" where
  "settled (Fulfilled v) = JObj [(''status'', JStr ''fulfilled''), (''value'', v)]"
| "settled Rejects = JObj [(''status'', JStr ''rejected'')]"

definition allSettled :: "promise list \<Rightarrow> promise" where
  "allSettled ps = Fulfilled (JArr (map settled ps))"

section \<open>Effects and responses\<close>

text \<open>
  What a handler does to the outside, in the order in which it does it: the call of
  \<^verbatim>\<open>saveQueueData\<close> with the document it stores, and the calls of the channel adapters.
  The e-mail adapter is called with an order by add-and-notify and with an element of the
  submitted array by sync.
\<close>

datatype effect =
    SaveQueueData queue_data
  | SendEmail jsval
  | NotifyAdmins order
  | NotifyCustomer order jsval
  | NotifyStatus order jsval

text \<open>
  The responses of the three handlers: the HTTP status and the fields of the body that
  identify the outcome (the message texts and the timestamp are left out). The 400
  responses carry which check refused the request.
\<close>

datatype refusal =
    OrdersUndefined
  | OrdersNotArray
  | PrefixUndefined
  | NumberUndefined
  | OrderMissing
  | IdOrStatusMissing

datatype response =
    BadRequest refusal
  | NotFound
  | SyncOk nat
  | Created
  | StatusOk
  | ServerError

fun http_status :: "response \<Rightarrow> nat" where
  "http_status (BadRequest _) = 400"
| "http_status NotFound = 404"
| "http_status (SyncOk _) = 200"
| "http_status Created = 201"
| "http_status StatusOk = 200"
| "http_status ServerError = 500"

text \<open>The body of the response holds \<^verbatim>\<open>success: true\<close>.\<close>

fun reports_success :: "response \<Rightarrow> bool" where
  "reports_success (SyncOk _) = True"
| "reports_success Created = True"
| "reports_success StatusOk = True"
| "reports_success _ = False"

text \<open>
  The run of a handler: its response, the stored queue data after it, and its effects in
  order.
\<close>

record run =
  response :: response
  store :: queue_data
  trace :: "effect list"

definition refuse :: "refusal \<Rightarrow> queue_data \<Rightarrow> run" where
  "refuse r disk = \<lparr>response = BadRequest r, store = disk, trace = []\<rparr>"

section \<open>POST /api/queue/sync\<close>

text \<open>
  The \<^verbatim>\<open>orders\<close> field of the body: falsy (absent, null, ...), a truthy value that is not
  an array, or an array of any values.
\<close>

datatype orders_field = OrdersFalsy | OrdersNoArray | OrdersArray "jsval list"

record sync_body =
  sync_orders :: orders_field
  sync_currentPrefix :: jsval
  sync_currentNumber :: jsval

text \<open>
  \<^verbatim>\<open>new Date(v)\<close>: a date is copied; any other value is converted to a primitive, which
  may throw, and the primitive gives the time value.
\<close>

definition new_Date :: "env \<Rightarrow> jsval \<Rightarrow> thrown + jsval" where
  "new_Date e v =
     (case v of
        JDate t \<Rightarrow> Inr (JDate t)
      | _ \<Rightarrow> if conversion_throws v then Inl Thrown else Inr (JDate (date_ctor e v)))"

text \<open>
  The callback of \<^verbatim>\<open>orders.filter\<close>: the element is new when the stored ids do not
  include its id. Reading the id of a null element throws.
\<close>

definition is_new :: "jsval list \<Rightarrow> jsval \<Rightarrow> thrown + bool" where
  "is_new currentOrderIds v =
     (case get_property v ''id'' of
        Inl t \<Rightarrow> Inl t
      | Inr i \<Rightarrow> Inr (\<not> array_includes currentOrderIds i))"

text \<open>
  The callback of \<^verbatim>\<open>orders.map\<close>: an element without a truthy \<^verbatim>\<open>createdAt\<close> is assigned
  the current date, and the result is a copy of its fields whose \<^verbatim>\<open>createdAt\<close> is
  \<^verbatim>\<open>new Date(order.createdAt)\<close>. On a primitive element the \<^verbatim>\<open>createdAt\<close> read is
  \<^verbatim>\<open>undefined\<close> and the assignment throws (the file is a module, so its code is strict);
  on null the read throws; on an object \<^verbatim>\<open>new Date\<close> may throw.
\<close>

definition process_order :: "env \<Rightarrow> jsval \<Rightarrow> thrown + order" where
  "process_order e v =
     (case own_fields v of
        None \<Rightarrow> Inl Thrown
      | Some fs \<Rightarrow>
          let fs1 = (if \<not> truthy (get_field fs ''createdAt'')
                     then set_field fs ''createdAt'' (JDate (Some (clock e)))
                     else fs)
          in (case new_Date e (get_field fs1 ''createdAt'') of
                Inl t \<Rightarrow> Inl t
              | Inr d \<Rightarrow> Inr (set_field fs1 ''createdAt'' d)))"

text \<open>
  The handler. The four checks come first, in the source's order. Then the stored data is
  loaded, the elements whose id the stored orders do not include are the new ones, and
  \<^verbatim>\<open>newOrders.forEach(async ...)\<close> calls \<^verbatim>\<open>emailService.sendNewOrderNotification\<close> for each
  of them: an async callback runs to its first \<^verbatim>\<open>await\<close> when it is called, so every
  call is made before \<^verbatim>\<open>forEach\<close> returns, and what the promises do afterwards is caught
  inside the callback. Only then are the orders processed and the document saved: the
  orders are the processed orders of the body, the prefix and the number are the body's.
  An exception of the filter or of the map reaches the handler's \<^verbatim>\<open>catch\<close>, which
  answers 500: nothing is saved, and the e-mails of the new orders have been sent when it
  is the map that throws.
\<close>

definition sync :: "env \<Rightarrow> sync_body \<Rightarrow> queue_data \<Rightarrow> run" where
  "sync e body disk =
     (case sync_orders body of
        OrdersFalsy \<Rightarrow> refuse OrdersUndefined disk
      | OrdersNoArray \<Rightarrow> refuse OrdersNotArray disk
      | OrdersArray os \<Rightarrow>
          if \<not> truthy (sync_currentPrefix body) then refuse PrefixUndefined disk
          else if \<not> truthy (sync_currentNumber body) then refuse NumberUndefined disk
          else
            let currentData = loadQueueData disk;
                currentOrderIds = map (\<lambda>ord. get_field ord ''id'') (orders currentData)
            in (case filter_throwing (is_new currentOrderIds) os of
                  Inl _ \<Rightarrow> \<lparr>response = ServerError, store = disk, trace = []\<rparr>
                | Inr newOrders \<Rightarrow>
                    (case map_throwing (process_order e) os of
                       Inl _ \<Rightarrow> \<lparr>response = ServerError, store = disk,
                                 trace = map SendEmail newOrders\<rparr>
                     | Inr processedOrders \<Rightarrow>
                         let saved = \<lparr>orders = processedOrders,
                                      currentPrefix = sync_currentPrefix body,
                                      currentNumber = sync_currentNumber body\<rparr>
                         in \<lparr>response = SyncOk (length processedOrders),
                             store = saveQueueData saved disk,
                             trace = map SendEmail newOrders @ [SaveQueueData saved]\<rparr>)))"

section \<open>POST /api/queue/add-and-notify\<close>

record add_body =
  add_order :: "order option"
  add_customerPhone :: jsval

text \<open>
  The handler: a body without an order is refused; otherwise the order is pushed onto the
  loaded orders and the data is saved. Then the notifications are started, each with its
  own \<^verbatim>\<open>.catch\<close>: e-mail, the administrators' WhatsApp, and the customer's WhatsApp when
  \<^verbatim>\<open>customerPhone\<close> is truthy. The handler awaits \<^verbatim>\<open>Promise.allSettled\<close> of them and
  answers 201; an exception anywhere gives the 500 of the handler's \<^verbatim>\<open>catch\<close>.
\<close>

definition add_and_notify :: "env \<Rightarrow> add_body \<Rightarrow> queue_data \<Rightarrow> run" where
  "add_and_notify e body disk =
     (case add_order body of
        None \<Rightarrow> refuse OrderMissing disk
      | Some ord \<Rightarrow>
          let queueData = loadQueueData disk;
              queueData' = queueData\<lparr>orders := orders queueData @ [ord]\<rparr>;
              disk' = saveQueueData queueData' disk;
              customerPhone = add_customerPhone body;
              notificationPromises =
                [catch_null (sendNewOrderNotification e (JObj ord)),
                 catch_null (notifyAdminsAboutNewOrder e ord)]
                @ (if truthy customerPhone
                   then [catch_null (notifyCustomerAboutOrder e ord customerPhone)]
                   else []);
              effects =
                [SaveQueueData queueData', SendEmail (JObj ord), NotifyAdmins ord]
                @ (if truthy customerPhone then [NotifyCustomer ord customerPhone] else [])
          in (case await (allSettled notificationPromises) of
                Inl _ \<Rightarrow> \<lparr>response = ServerError, store = disk', trace = effects\<rparr>
              | Inr results \<Rightarrow> \<lparr>response = Created, store = disk', trace = effects\<rparr>))"

section \<open>POST /api/queue/update-status\<close>

record status_body =
  upd_orderId :: jsval
  upd_status :: jsval
  upd_customerPhone :: jsval

text \<open>
  The handler: a falsy \<^verbatim>\<open>orderId\<close> or \<^verbatim>\<open>status\<close> is refused (the two operands of
  \<^verbatim>\<open>||\<close> are evaluated in turn); an id that no stored order
  has gives 404; otherwise the status of the first order with that id is assigned and the
  data is saved. When \<^verbatim>\<open>customerPhone\<close> is truthy the handler awaits
  \<^verbatim>\<open>whatsappService.notifyCustomerAboutStatusUpdate\<close>, with no \<^verbatim>\<open>catch\<close> of its own: a
  rejection is thrown into the handler's \<^verbatim>\<open>catch\<close>, which answers 500.
\<close>

definition update_status :: "env \<Rightarrow> status_body \<Rightarrow> queue_data \<Rightarrow> run" where
  "update_status e body disk =
     (if \<not> truthy (upd_orderId body) then refuse IdOrStatusMissing disk
      else if \<not> truthy (upd_status body) then refuse IdOrStatusMissing disk
      else
        let queueData = loadQueueData disk in
        (case findIndex (\<lambda>ord. strict_eq (get_field ord ''id'') (upd_orderId body))
                (orders queueData) of
           None \<Rightarrow> \<lparr>response = NotFound, store = disk, trace = []\<rparr>
         | Some orderIndex \<Rightarrow>
             let queueData' = queueData\<lparr>orders :=
                   (orders queueData)[orderIndex :=
                      set_field (orders queueData ! orderIndex) ''status'' (upd_status body)]\<rparr>;
                 disk' = saveQueueData queueData' disk;
                 customerPhone = upd_customerPhone body
             in if truthy customerPhone
                then
                  (let effects = [SaveQueueData queueData',
                                  NotifyStatus (orders queueData' ! orderIndex) customerPhone]
                   in case await (notifyCustomerAboutStatusUpdate e
                                    (orders queueData' ! orderIndex) customerPhone) of
                        Inl _ \<Rightarrow> \<lparr>response = ServerError, store = disk', trace = effects\<rparr>
                      | Inr _ \<Rightarrow> \<lparr>response = StatusOk, store = disk', trace = effects\<rparr>)
                else \<lparr>response = StatusOk, store = disk',
                      trace = [SaveQueueData queueData']\<rparr>))"

section \<open>Properties of queue data and of traces\<close>

text \<open>The orders of the queue are keyed by unique id: no two orders have the same id.\<close>

definition unique_ids :: "queue_data \<Rightarrow> bool" where
  "unique_ids q = distinct (order_ids q)"

text \<open>
  No adapter is called before the queue data is saved: a trace with an effect starts with
  the call of \<^verbatim>\<open>saveQueueData\<close>.
\<close>

fun commit_first :: "effect list \<Rightarrow> bool" where
  "commit_first [] = True"
| "commit_first (SaveQueueData _ # _) = True"
| "commit_first (_ # _) = False"

text \<open>
  The channels on which a trace announces an order as a new order: e-mail
  (\<^verbatim>\<open>sendNewOrderNotification\<close>), the administrators' WhatsApp
  (\<^verbatim>\<open>notifyAdminsAboutNewOrder\<close>) and the customer's WhatsApp
  (\<^verbatim>\<open>notifyCustomerAboutOrder\<close>).
\<close>

datatype channel = EmailChannel | AdminWhatsApp | CustomerWhatsApp

fun new_order_channel :: "order \<Rightarrow> effect \<Rightarrow> channel list" where
  "new_order_channel ord (SendEmail x) = (if x = JObj ord then [EmailChannel] else [])"
| "new_order_channel ord (NotifyAdmins x) = (if x = ord then [AdminWhatsApp] else [])"
| "new_order_channel ord (NotifyCustomer x _) = (if x = ord then [CustomerWhatsApp] else [])"
| "new_order_channel ord _ = []"

definition channels_for :: "order \<Rightarrow> effect list \<Rightarrow> channel set" where
  "channels_for ord tr = set (concat (map (new_order_channel ord) tr))"

text \<open>
  The elements of a submitted array that the sync handler processes without an exception:
  the values with fields (neither null nor primitive) whose \<^verbatim>\<open>createdAt\<close> converts to a
  primitive.
\<close>

definition storable :: "jsval \<Rightarrow> bool" where
  "storable v =
     (case own_fields v of
        None \<Rightarrow> False
      | Some fs \<Rightarrow> \<not> conversion_throws (get_field fs ''createdAt''))"

text \<open>
  The time value of the \<^verbatim>\<open>createdAt\<close> that the sync handler stores for an element with
  the fields \<open>fs\<close>: the clock when the field is falsy, the time of \<^verbatim>\<open>new Date\<close> of the
  field otherwise.
\<close>

definition stored_time :: "env \<Rightarrow> order \<Rightarrow> int option" where
  "stored_time e fs =
     (let c = get_field fs ''createdAt''
      in if \<not> truthy c then Some (clock e)
         else (case c of JDate t \<Rightarrow> t | _ \<Rightarrow> date_ctor e c))"

text \<open>
  What the sync handler stores for an element with fields: its fields, with
  \<^verbatim>\<open>createdAt\<close> replaced by (or extended with) the date of that time value.
\<close>

definition stored_order :: "env \<Rightarrow> jsval \<Rightarrow> order" where
  "stored_order e v =
     (case own_fields v of
        None \<Rightarrow> []
      | Some fs \<Rightarrow> set_field fs ''createdAt'' (JDate (stored_time e fs)))"

section \<open>The validations of the specification\<close>

text \<open>
  The validation of the sequencer fields in the words of the specification (section 4.3):
  a non-empty prefix and a non-negative number. It is compared with the checks of the sync
  handler below.
\<close>

definition spec_sequencer_valid :: "jsval \<Rightarrow> jsval \<Rightarrow> bool" where
  "spec_sequencer_valid p n =
     ((case p of JStr s \<Rightarrow> s \<noteq> [] | _ \<Rightarrow> False) \<and> (case n of JNum k \<Rightarrow> 0 \<le> k | _ \<Rightarrow> False))"

text \<open>
  The six order statuses of the specification's data model (section 3). The handlers hold
  no such list; it is compared with the check of the update-status handler below.
\<close>

definition spec_status_valid :: "jsval \<Rightarrow> bool" where
  "spec_status_valid v =
     (v \<in> set (map JStr [''received'', ''confirmed'', ''preparing'', ''out-for-delivery'',
                          ''completed'', ''canceled'']))"

section \<open>Example requests\<close>

text \<open>
  A date constructor for the examples (a number is a time value, a date is copied, anything
  else is an invalid date), an environment whose adapters all succeed and one whose
  adapters all reject, and some orders, queues and bodies.
\<close>

fun example_date :: "jsval \<Rightarrow> int option" where
  "example_date (JNum n) = Some n"
| "example_date (JDate t) = t"
| "example_date _ = None"

definition env_up :: env where
  "env_up = \<lparr>clock = 1000, date_ctor = example_date,
     sendNewOrderNotification = (\<lambda>_. Fulfilled (JBool True)),
     notifyAdminsAboutNewOrder = (\<lambda>_. Fulfilled (JBool True)),
     notifyCustomerAboutOrder = (\<lambda>_ _. Fulfilled (JBool True)),
     notifyCustomerAboutStatusUpdate = (\<lambda>_ _. Fulfilled (JBool True))\<rparr>"

definition env_down :: env where
  "env_down = \<lparr>clock = 1000, date_ctor = example_date,
     sendNewOrderNotification = (\<lambda>_. Rejects),
     notifyAdminsAboutNewOrder = (\<lambda>_. Rejects),
     notifyCustomerAboutOrder = (\<lambda>_ _. Rejects),
     notifyCustomerAboutStatusUpdate = (\<lambda>_ _. Rejects)\<rparr>"

definition order_A :: order where
  "order_A = [(''id'', JStr ''A''), (''status'', JStr ''recebido''), (''createdAt'', JNum 5)]"

definition order_B :: order where
  "order_B = [(''id'', JStr ''B''), (''status'', JStr ''recebido''), (''createdAt'', JNum 7)]"

definition queue_A :: queue_data where
  "queue_A = \<lparr>orders = [order_A], currentPrefix = JStr ''A'', currentNumber = JNum 2\<rparr>"

definition queue_AB :: queue_data where
  "queue_AB = \<lparr>orders = [order_A, order_B], currentPrefix = JStr ''A'', currentNumber = JNum 3\<rparr>"

definition sync_B :: sync_body where
  "sync_B = \<lparr>sync_orders = OrdersArray [JObj order_B], sync_currentPrefix = JStr ''A'',
              sync_currentNumber = JNum 3\<rparr>"

definition add_A :: add_body where
  "add_A = \<lparr>add_order = Some order_A, add_customerPhone = JStr ''5511''\<rparr>"

definition status_A :: status_body where
  "status_A = \<lparr>upd_orderId = JStr ''A'', upd_status = JStr ''pronto'',
               upd_customerPhone = JStr ''5511''\<rparr>"

definition status_B :: status_body where
  "status_B = \<lparr>upd_orderId = JStr ''B'', upd_status = JStr ''pronto'',
               upd_customerPhone = Undefined\<rparr>"

definition status_banana :: status_body where
  "status_banana = \<lparr>upd_orderId = JStr ''A'', upd_status = JStr ''banana'',
                    upd_customerPhone = Undefined\<rparr>"

definition status_empty :: status_body where
  "status_empty = \<lparr>upd_orderId = JStr ''A'', upd_status = JStr [],
                   upd_customerPhone = Undefined\<rparr>"

definition add_B :: add_body where
  "add_B = \<lparr>add_order = Some order_B, add_customerPhone = Undefined\<rparr>"

definition sync_negative :: sync_body where
  "sync_negative = \<lparr>sync_orders = OrdersArray [JObj order_B], sync_currentPrefix = JStr ''A'',
                    sync_currentNumber = JNum (- 1)\<rparr>"

definition sync_no_prefix :: sync_body where
  "sync_no_prefix = \<lparr>sync_orders = OrdersArray [JObj order_B], sync_currentPrefix = JStr [],
                     sync_currentNumber = JNum 3\<rparr>"

definition order_C :: order where
  "order_C = [(''id'', JStr ''C''), (''total'', JNum 36)]"

definition sync_BC :: sync_body where
  "sync_BC = \<lparr>sync_orders = OrdersArray [JObj order_B, JObj order_C],
               sync_currentPrefix = JStr ''A'', sync_currentNumber = JNum 4\<rparr>"

definition sync_null :: sync_body where
  "sync_null = \<lparr>sync_orders = OrdersArray [JObj order_B, Null],
                 sync_currentPrefix = JStr ''A'', sync_currentNumber = JNum 3\<rparr>"

definition order_D :: order where
  "order_D = [(''id'', JStr ''D''), (''createdAt'', JObj [(''toString'', Null)])]"

definition sync_bad_date :: sync_body where
  "sync_bad_date = \<lparr>sync_orders = OrdersArray [JObj order_D],
                     sync_currentPrefix = JStr ''A'', sync_currentNumber = JNum 3\<rparr>"

definition sync_no_number :: sync_body where
  "sync_no_number = \<lparr>sync_orders = OrdersArray [JObj order_B], sync_currentPrefix = JStr ''A'',
                     sync_currentNumber = Undefined\<rparr>"

section \<open>Lemmas about the handlers\<close>

lemma get_field_set_field_other: "k' \<noteq> k \<Longrightarrow> get_field (set_field ob k v) k' = get_field ob k'"
  by (simp add: get_field_def set_field_def update_conv')

lemma get_field_set_field_same: "get_field (set_field ob k v) k = v"
  by (simp add: get_field_def set_field_def update_conv')

lemma set_field_twice: "set_field (set_field ob k v) k w = set_field ob k w"
  by (simp add: set_field_def)

lemma thrown_is_Thrown: "(t :: thrown) = Thrown"
  by (cases t) simp

lemma map_throwing_all:
  "(\<And>x. x \<in> set xs \<Longrightarrow> f x = Inr (g x)) \<Longrightarrow> map_throwing f xs = Inr (map g xs)"
  by (induction xs) simp_all

lemma map_throwing_throws:
  "x \<in> set xs \<Longrightarrow> f x = Inl t \<Longrightarrow> \<exists>t'. map_throwing f xs = Inl t'"
  by (induction xs) (auto split: sum.splits)

lemma filter_throwing_all:
  "(\<And>x. x \<in> set xs \<Longrightarrow> p x = Inr (q x)) \<Longrightarrow> filter_throwing p xs = Inr (filter q xs)"
  by (induction xs) simp_all

lemma is_new_with_fields:
  "own_fields v = Some fs \<Longrightarrow> is_new ids v = Inr (\<not> array_includes ids (field_of v ''id''))"
  by (cases v) (simp_all add: is_new_def)

lemma falsy_converts: "\<not> truthy c \<Longrightarrow> \<not> conversion_throws c"
  by (cases c) simp_all

lemma new_Date_stored_time:
  assumes "\<not> conversion_throws (get_field fs ''createdAt'')"
    and "truthy (get_field fs ''createdAt'')"
  shows "new_Date e (get_field fs ''createdAt'') = Inr (JDate (stored_time e fs))"
  using assms
  by (cases "get_field fs ''createdAt''") (simp_all add: new_Date_def stored_time_def)

lemma process_order_storable:
  assumes "own_fields v = Some fs" and "storable v"
  shows "process_order e v = Inr (set_field fs ''createdAt'' (JDate (stored_time e fs)))"
proof (cases "truthy (get_field fs ''createdAt'')")
  case True
  from assms have "\<not> conversion_throws (get_field fs ''createdAt'')"
    by (simp add: storable_def)
  with True assms(1) show ?thesis
    by (simp add: process_order_def new_Date_stored_time)
next
  case False
  with assms(1) show ?thesis
    by (simp add: process_order_def Let_def get_field_set_field_same new_Date_def
        stored_time_def set_field_twice)
qed

lemma process_order_not_storable:
  assumes "\<not> storable v"
  shows "process_order e v = Inl Thrown"
proof (cases "own_fields v")
  case None
  then show ?thesis by (simp add: process_order_def)
next
  case (Some fs)
  with assms have c: "conversion_throws (get_field fs ''createdAt'')"
    by (simp add: storable_def)
  then have "truthy (get_field fs ''createdAt'')"
    using falsy_converts by blast
  with c Some show ?thesis
    by (cases "get_field fs ''createdAt''") (simp_all add: process_order_def new_Date_def)
qed

text \<open>What the sync handler stores for a storable element.\<close>

lemma process_order_stored_order:
  assumes "storable v"
  shows "process_order e v = Inr (stored_order e v)"
proof -
  from assms obtain fs where "own_fields v = Some fs"
    by (auto simp add: storable_def split: option.splits)
  with assms show ?thesis
    by (simp add: process_order_storable stored_order_def)
qed

lemma stored_order_id:
  "storable v \<Longrightarrow> get_field (stored_order e v) ''id'' = field_of v ''id''"
  by (auto simp add: storable_def stored_order_def field_of_def get_field_set_field_other
      split: option.splits)

lemma sync_accepted:
  assumes "sync_orders body = OrdersArray os"
    and "truthy (sync_currentPrefix body)" and "truthy (sync_currentNumber body)"
    and "list_all storable os"
  shows "sync e body disk =
     \<lparr>response = SyncOk (length os),
      store = \<lparr>orders = map (stored_order e) os, currentPrefix = sync_currentPrefix body,
               currentNumber = sync_currentNumber body\<rparr>,
      trace = map SendEmail
                (filter (\<lambda>v. \<not> array_includes (order_ids disk) (field_of v ''id'')) os)
              @ [SaveQueueData \<lparr>orders = map (stored_order e) os,
                               currentPrefix = sync_currentPrefix body,
                               currentNumber = sync_currentNumber body\<rparr>]\<rparr>"
proof -
  from assms(4) have st: "\<And>v. v \<in> set os \<Longrightarrow> storable v"
    by (simp add: list_all_iff)
  have "is_new (order_ids disk) v
        = Inr (\<not> array_includes (order_ids disk) (field_of v ''id''))"
    if "v \<in> set os" for v
  proof -
    from that have "storable v" by (rule st)
    then obtain fs where "own_fields v = Some fs"
      by (auto simp add: storable_def split: option.splits)
    then show ?thesis by (rule is_new_with_fields)
  qed
  then have f: "filter_throwing (is_new (order_ids disk)) os =
      Inr (filter (\<lambda>v. \<not> array_includes (order_ids disk) (field_of v ''id'')) os)"
    by (rule filter_throwing_all)
  have m: "map_throwing (process_order e) os = Inr (map (stored_order e) os)"
    using st by (intro map_throwing_all) (simp add: process_order_stored_order)
  from assms(1-3) f m show ?thesis
    by (simp add: sync_def Let_def loadQueueData_def saveQueueData_def order_ids_def)
qed

lemma sync_thrown:
  assumes "sync_orders body = OrdersArray os"
    and "truthy (sync_currentPrefix body)" and "truthy (sync_currentNumber body)"
    and "\<not> list_all storable os"
  shows "response (sync e body disk) = ServerError" and "store (sync e body disk) = disk"
proof -
  from assms(4) obtain v where "v \<in> set os" and "\<not> storable v"
    by (auto simp add: list_all_iff)
  then have "\<exists>t. map_throwing (process_order e) os = Inl t"
    using map_throwing_throws process_order_not_storable by fastforce
  with assms(1-3) show "response (sync e body disk) = ServerError"
    and "store (sync e body disk) = disk"
    by (auto simp add: sync_def Let_def split: sum.splits)
qed

lemma sync_success_cases:
  assumes "reports_success (response (sync e body disk))"
  shows "\<exists>os. sync_orders body = OrdersArray os \<and> list_all storable os"
    and "truthy (sync_currentPrefix body)" and "truthy (sync_currentNumber body)"
proof -
  from assms show p: "truthy (sync_currentPrefix body)"
    and n: "truthy (sync_currentNumber body)"
    by (auto simp add: sync_def refuse_def split: orders_field.splits if_splits)
  from assms obtain os where os: "sync_orders body = OrdersArray os"
    by (auto simp add: sync_def refuse_def split: orders_field.splits)
  have "list_all storable os"
  proof (rule ccontr)
    assume "\<not> list_all storable os"
    with os p n have "response (sync e body disk) = ServerError"
      by (rule sync_thrown)
    with assms show False by simp
  qed
  with os show "\<exists>os. sync_orders body = OrdersArray os \<and> list_all storable os"
    by blast
qed

lemma sync_invalid:
  assumes "\<not> truthy (sync_currentPrefix body) \<or> \<not> truthy (sync_currentNumber body)"
  shows "http_status (response (sync e body disk)) = 400"
    and "store (sync e body disk) = disk" and "trace (sync e body disk) = []"
  using assms
  by (auto simp add: sync_def refuse_def split: orders_field.splits)

lemma sync_store_unchanged:
  assumes "\<not> reports_success (response (sync e body disk))"
  shows "store (sync e body disk) = disk"
  using assms
  by (auto simp add: sync_def refuse_def Let_def split: orders_field.splits sum.splits)

lemma findIndex_Some:
  "findIndex p xs = Some i \<Longrightarrow> i < length xs \<and> p (xs ! i) \<and> (\<forall>j<i. \<not> p (xs ! j))"
proof (induction xs arbitrary: i)
  case Nil
  then show ?case by simp
next
  case (Cons x xs)
  show ?case
  proof (cases "p x")
    case True
    with Cons.prems show ?thesis by simp
  next
    case False
    with Cons.prems obtain k where k: "findIndex p xs = Some k" and i: "i = Suc k"
      by auto
    from Cons.IH [OF k] False i show ?thesis
      by (auto simp add: less_Suc_eq_0_disj)
  qed
qed

lemma findIndex_None: "findIndex p xs = None \<longleftrightarrow> (\<forall>x \<in> set xs. \<not> p x)"
  by (induction xs) auto

lemma filter_update_other:
  "filter (\<lambda>f. fst f \<noteq> k) (AList.update k v al) = filter (\<lambda>f. fst f \<noteq> k) al"
  by (induction al) auto

lemma filter_set_field_other:
  "filter (\<lambda>f. fst f \<noteq> k) (set_field ob k v) = filter (\<lambda>f. fst f \<noteq> k) ob"
  by (simp add: set_field_def filter_update_other)

lemma channels_for_emails:
  "channels_for ord (map SendEmail xs @ [SaveQueueData q])
   = (if JObj ord \<in> set xs then {EmailChannel} else {})"
  by (induction xs) (auto simp add: channels_for_def)

lemma update_status_store:
  "store (update_status e body disk) = disk \<or>
   (\<exists>i. findIndex (\<lambda>ord. strict_eq (get_field ord ''id'') (upd_orderId body)) (orders disk) = Some i
      \<and> store (update_status e body disk) =
          disk\<lparr>orders := (orders disk)[i := set_field (orders disk ! i) ''status'' (upd_status body)]\<rparr>)"
  by (auto simp add: update_status_def refuse_def Let_def loadQueueData_def saveQueueData_def
      split: option.splits sum.splits)

lemma order_ids_set_status:
  "order_ids (q\<lparr>orders := (orders q)[i := set_field (orders q ! i) ''status'' v]\<rparr>) = order_ids q"
proof (cases "i < length (orders q)")
  case True
  then show ?thesis
    by (simp add: order_ids_def map_update get_field_set_field_other list_update_same_conv)
next
  case False
  then show ?thesis by (simp add: order_ids_def list_update_beyond)
qed

lemma order_ids_update_status: "order_ids (store (update_status e body disk)) = order_ids disk"
  using update_status_store [of e body disk] by (auto simp add: order_ids_set_status)

lemma add_and_notify_Some:
  assumes "add_order body = Some ord"
  shows "response (add_and_notify e body disk) = Created"
    and "store (add_and_notify e body disk) = disk\<lparr>orders := orders disk @ [ord]\<rparr>"
    and "trace (add_and_notify e body disk) =
           [SaveQueueData (disk\<lparr>orders := orders disk @ [ord]\<rparr>), SendEmail (JObj ord),
            NotifyAdmins ord]
           @ (if truthy (add_customerPhone body) then [NotifyCustomer ord (add_customerPhone body)]
              else [])"
  using assms
  by (simp_all add: add_and_notify_def Let_def loadQueueData_def saveQueueData_def allSettled_def)

lemma add_and_notify_None:
  assumes "add_order body = None"
  shows "add_and_notify e body disk = refuse OrderMissing disk"
  using assms by (simp add: add_and_notify_def)

lemma add_and_notify_commit_first: "commit_first (trace (add_and_notify e body disk))"
  by (cases "add_order body") (simp_all add: add_and_notify_Some add_and_notify_None refuse_def)

lemma update_status_commit_first: "commit_first (trace (update_status e body disk))"
  by (simp add: update_status_def refuse_def Let_def split: option.splits sum.splits)

lemma add_and_notify_success_whatever_channels_do:
  "add_order body = Some ord \<Longrightarrow> reports_success (response (add_and_notify e body disk))"
  by (simp add: add_and_notify_Some)

lemma update_status_notification_rejected:
  assumes "truthy (upd_orderId body)" and "truthy (upd_status body)"
    and "truthy (upd_customerPhone body)"
    and "findIndex (\<lambda>ord. strict_eq (get_field ord ''id'') (upd_orderId body)) (orders disk)
         = Some i"
    and "notifyCustomerAboutStatusUpdate e
           (set_field (orders disk ! i) ''status'' (upd_status body)) (upd_customerPhone body)
         = Rejects"
  shows "response (update_status e body disk) = ServerError"
    and "store (update_status e body disk) =
           disk\<lparr>orders := (orders disk)[i := set_field (orders disk ! i) ''status''
                                               (upd_status body)]\<rparr>"
proof -
  from assms(4) have "i < length (orders disk)"
    using findIndex_Some by blast
  with assms show "response (update_status e body disk) = ServerError"
    and "store (update_status e body disk) =
           disk\<lparr>orders := (orders disk)[i := set_field (orders disk ! i) ''status''
                                               (upd_status body)]\<rparr>"
    by (simp_all add: update_status_def Let_def loadQueueData_def saveQueueData_def)
qed

section \<open>The sync handler replaces the stored orders\<close>

text \<open>
  The stored queue holds order A, the client submits the array with order B alone, and the
  sync is accepted: afterwards no stored order has the id of A. The handler saves the
  processed orders of the body, not a merge of them with the loaded ones.
\<close>

theorem sync_drops_absent_order:
  "JStr ''A'' \<in> set (order_ids queue_A)
   \<and> JStr ''A'' \<notin> set (map (\<lambda>v. field_of v ''id'') [JObj order_B])
   \<and> sync_orders sync_B = OrdersArray [JObj order_B]
   \<and> reports_success (response (sync env_up sync_B queue_A))
   \<and> JStr ''A'' \<notin> set (order_ids (store (sync env_up sync_B queue_A)))"
  by (simp add: env_up_def order_A_def order_B_def queue_A_def sync_B_def sync_def loadQueueData_def
      saveQueueData_def is_new_def field_of_def process_order_def new_Date_def get_field_def
      set_field_def array_includes_def order_ids_def Let_def)

text \<open>
  Claim C1, as amended: for every stored queue and every orders array that the sync
  accepts, the stored orders after the sync are exactly the orders of the array, in the
  array's order, each with its \<^verbatim>\<open>createdAt\<close> made a date. There are as many stored
  orders as elements; the stored order at each position has the fields of the element at
  that position apart from \<^verbatim>\<open>createdAt\<close>, and its \<^verbatim>\<open>createdAt\<close> is a date: the date
  of the element's \<^verbatim>\<open>createdAt\<close> when that is truthy (a copy when it is a date), the
  current date otherwise; the stored ids are the ids of the array. An order stored before
  the sync is therefore still stored afterwards only when the array holds an order with
  its id.
\<close>

theorem sync_stores_client_orders:
  assumes "sync_orders body = OrdersArray os"
    and "reports_success (response (sync e body disk))"
  shows "length (orders (store (sync e body disk))) = length os
       \<and> (\<forall>i < length os. \<exists>fs. own_fields (os ! i) = Some fs
             \<and> filter (\<lambda>f. fst f \<noteq> ''createdAt'') (orders (store (sync e body disk)) ! i)
                 = filter (\<lambda>f. fst f \<noteq> ''createdAt'') fs
             \<and> get_field (orders (store (sync e body disk)) ! i) ''createdAt''
                 = JDate (if truthy (get_field fs ''createdAt'')
                          then (case get_field fs ''createdAt'' of
                                  JDate t \<Rightarrow> t
                                | _ \<Rightarrow> date_ctor e (get_field fs ''createdAt''))
                          else Some (clock e)))
       \<and> order_ids (store (sync e body disk)) = map (\<lambda>v. field_of v ''id'') os"
proof -
  from assms(2) have p: "truthy (sync_currentPrefix body)"
    and n: "truthy (sync_currentNumber body)"
    by (rule sync_success_cases)+
  from assms obtain os' where "sync_orders body = OrdersArray os'" and "list_all storable os'"
    using sync_success_cases(1) by blast
  with assms(1) have all: "list_all storable os" by simp
  then have st: "\<And>v. v \<in> set os \<Longrightarrow> storable v"
    by (simp add: list_all_iff)
  from assms(1) p n all
  have run: "orders (store (sync e body disk)) = map (stored_order e) os"
    by (simp add: sync_accepted)
  have fields: "\<exists>fs. own_fields (os ! i) = Some fs
             \<and> filter (\<lambda>f. fst f \<noteq> ''createdAt'') (orders (store (sync e body disk)) ! i)
                 = filter (\<lambda>f. fst f \<noteq> ''createdAt'') fs
             \<and> get_field (orders (store (sync e body disk)) ! i) ''createdAt''
                 = JDate (if truthy (get_field fs ''createdAt'')
                          then (case get_field fs ''createdAt'' of
                                  JDate t \<Rightarrow> t
                                | _ \<Rightarrow> date_ctor e (get_field fs ''createdAt''))
                          else Some (clock e))"
    if i: "i < length os" for i
  proof -
    from i have "storable (os ! i)" by (simp add: st)
    then obtain fs where fs: "own_fields (os ! i) = Some fs"
      by (auto simp add: storable_def split: option.splits)
    with i run have "orders (store (sync e body disk)) ! i
        = set_field fs ''createdAt'' (JDate (stored_time e fs))"
      by (simp add: stored_order_def)
    with fs show ?thesis
      by (simp add: filter_set_field_other get_field_set_field_same stored_time_def Let_def)
  qed
  have "map (\<lambda>v. get_field (stored_order e v) ''id'') os = map (\<lambda>v. field_of v ''id'') os"
    using st by (simp add: stored_order_id)
  with run have "order_ids (store (sync e body disk)) = map (\<lambda>v. field_of v ''id'') os"
    by (simp add: order_ids_def comp_def)
  with run fields show ?thesis by simp
qed

text \<open>
  The theorem at a request with two orders, the second without a \<^verbatim>\<open>createdAt\<close>: the
  stored orders are the two orders, the first with the date of its time 7 and the second
  with the date of the clock.
\<close>

theorem sync_stores_client_orders_witness:
  "sync_orders sync_BC = OrdersArray [JObj order_B, JObj order_C]
   \<and> reports_success (response (sync env_up sync_BC queue_A))
   \<and> orders (store (sync env_up sync_BC queue_A))
       = [[(''id'', JStr ''B''), (''status'', JStr ''recebido''), (''createdAt'', JDate (Some 7))],
          [(''id'', JStr ''C''), (''total'', JNum 36), (''createdAt'', JDate (Some 1000))]]
   \<and> length (orders (store (sync env_up sync_BC queue_A))) = length [JObj order_B, JObj order_C]
   \<and> order_ids (store (sync env_up sync_BC queue_A))
       = map (\<lambda>v. field_of v ''id'') [JObj order_B, JObj order_C]"
proof -
  have a: "sync_orders sync_BC = OrdersArray [JObj order_B, JObj order_C]"
    by (simp add: sync_BC_def)
  have r: "sync env_up sync_BC queue_A =
     \<lparr>response = SyncOk 2,
      store = \<lparr>orders =
        [[(''id'', JStr ''B''), (''status'', JStr ''recebido''), (''createdAt'', JDate (Some 7))],
         [(''id'', JStr ''C''), (''total'', JNum 36), (''createdAt'', JDate (Some 1000))]],
        currentPrefix = JStr ''A'', currentNumber = JNum 4\<rparr>,
      trace = [SendEmail (JObj order_B), SendEmail (JObj order_C),
        SaveQueueData \<lparr>orders =
        [[(''id'', JStr ''B''), (''status'', JStr ''recebido''), (''createdAt'', JDate (Some 7))],
         [(''id'', JStr ''C''), (''total'', JNum 36), (''createdAt'', JDate (Some 1000))]],
        currentPrefix = JStr ''A'', currentNumber = JNum 4\<rparr>]\<rparr>"
    by (simp add: env_up_def order_A_def order_B_def order_C_def queue_A_def sync_BC_def
      sync_def loadQueueData_def saveQueueData_def is_new_def field_of_def process_order_def
      new_Date_def get_field_def set_field_def array_includes_def Let_def)
  then have s: "reports_success (response (sync env_up sync_BC queue_A))"
    by simp
  from sync_stores_client_orders [OF a s] a s r show ?thesis by simp
qed

section \<open>Saving and notifying: the order of the effects\<close>

text \<open>
  The add-and-notify and the update-status handler save the queue data before they call an
  adapter, for every request. The sync handler calls the e-mail adapter for every new order
  before it saves: whenever a sync is accepted and has a new order, its trace starts with
  the e-mail.
\<close>

lemma sync_new_order_dispatched_first:
  assumes "sync_orders body = OrdersArray os"
    and "truthy (sync_currentPrefix body)" and "truthy (sync_currentNumber body)"
    and "list_all storable os"
    and "filter (\<lambda>v. \<not> array_includes (order_ids disk) (field_of v ''id'')) os = x # xs"
  shows "\<not> commit_first (trace (sync e body disk))"
  using assms by (simp add: sync_accepted)

text \<open>
  Claim C2 (the mutated queue data is saved before any notification of the request is
  dispatched) fails on the sync handler. The stored queue holds order A and the client
  submits order B: the trace of the sync is the call of the e-mail adapter for B followed
  by the call of \<^verbatim>\<open>saveQueueData\<close>.
\<close>

theorem sync_emails_before_save:
  "trace (sync env_up sync_B queue_A) =
     [SendEmail (JObj order_B),
      SaveQueueData
        \<lparr>orders = [[(''id'', JStr ''B''), (''status'', JStr ''recebido''),
                     (''createdAt'', JDate (Some 7))]],
         currentPrefix = JStr ''A'', currentNumber = JNum 3\<rparr>]
   \<and> \<not> commit_first (trace (sync env_up sync_B queue_A))"
  by (simp add: env_up_def order_A_def order_B_def queue_A_def sync_B_def sync_def loadQueueData_def
      saveQueueData_def is_new_def field_of_def process_order_def new_Date_def get_field_def
      set_field_def array_includes_def order_ids_def Let_def)

section \<open>Notification failures and the response\<close>

text \<open>
  Claim C3 (a notification failure is never the operation's failure) holds of the
  add-and-notify handler, see \<open>add_and_notify_success_whatever_channels_do\<close>, and fails
  on the update-status handler whenever the adapter rejects, see
  \<open>update_status_notification_rejected\<close>. The stored queue holds order A, the request sets its status
  and carries a customer phone, and the WhatsApp adapter rejects: the queue data with the
  new status is saved and the response is the 500 of the handler's \<^verbatim>\<open>catch\<close>.
\<close>

theorem update_status_rejected_notification_gives_500:
  "response (update_status env_down status_A queue_A) = ServerError
   \<and> http_status (response (update_status env_down status_A queue_A)) = 500
   \<and> store (update_status env_down status_A queue_A)
       = queue_A\<lparr>orders := [set_field order_A ''status'' (JStr ''pronto'')]\<rparr>"
  by (simp add: env_down_def order_A_def queue_A_def status_A_def update_status_def
      loadQueueData_def saveQueueData_def get_field_def set_field_def Let_def)

section \<open>The sequencer fields of a sync request\<close>

text \<open>
  The client submits prefix A and the number -1, which the validation of the specification
  refuses: the sync is accepted and the stored number is -1. The handler tests the two
  fields for truthiness only.
\<close>

theorem sync_accepts_negative_number:
  "\<not> spec_sequencer_valid (sync_currentPrefix sync_negative) (sync_currentNumber sync_negative)
   \<and> response (sync env_up sync_negative queue_A) = SyncOk 1
   \<and> currentNumber (store (sync env_up sync_negative queue_A)) = JNum (- 1)
   \<and> store (sync env_up sync_negative queue_A) \<noteq> queue_A"
  by (simp add: env_up_def order_A_def order_B_def queue_A_def sync_negative_def sync_def loadQueueData_def
      saveQueueData_def is_new_def field_of_def process_order_def new_Date_def get_field_def
      set_field_def array_includes_def order_ids_def Let_def spec_sequencer_valid_def)

text \<open>
  Claim C4, as amended: for every sync request whose orders field is an array and whose
  prefix and number are both truthy (any number but 0, the negative ones included), the
  submitted prefix and number replace the stored sequencer fields when every element of
  the array can be processed (it is an object and its \<^verbatim>\<open>createdAt\<close> converts to a date);
  when some element cannot (a null or primitive element, a \<^verbatim>\<open>createdAt\<close> on which
  \<^verbatim>\<open>new Date\<close> throws), the handler answers 500 and leaves the stored queue data
  unchanged. For every request whose prefix is falsy (absent, null, the empty string), or
  whose number is falsy and not the number 0 (absent, null), the sync answers 400 and
  leaves the stored queue data unchanged, with no effect. The statement is silent on the
  number 0.
\<close>

theorem sync_sequencer_fields:
  "(sync_orders body = OrdersArray os \<and> truthy (sync_currentPrefix body)
      \<and> truthy (sync_currentNumber body) \<and> list_all storable os
    \<longrightarrow> reports_success (response (sync e body disk))
        \<and> currentPrefix (store (sync e body disk)) = sync_currentPrefix body
        \<and> currentNumber (store (sync e body disk)) = sync_currentNumber body)
   \<and> (sync_orders body = OrdersArray os \<and> truthy (sync_currentPrefix body)
      \<and> truthy (sync_currentNumber body) \<and> \<not> list_all storable os
    \<longrightarrow> http_status (response (sync e body disk)) = 500
        \<and> store (sync e body disk) = disk)
   \<and> ((\<not> truthy (sync_currentPrefix body)
        \<or> (\<not> truthy (sync_currentNumber body) \<and> sync_currentNumber body \<noteq> JNum 0))
    \<longrightarrow> http_status (response (sync e body disk)) = 400
        \<and> store (sync e body disk) = disk
        \<and> trace (sync e body disk) = [])"
proof (intro conjI impI)
  assume a: "sync_orders body = OrdersArray os \<and> truthy (sync_currentPrefix body)
      \<and> truthy (sync_currentNumber body) \<and> list_all storable os"
  then have "sync e body disk = \<lparr>response = SyncOk (length os),
      store = \<lparr>orders = map (stored_order e) os, currentPrefix = sync_currentPrefix body,
               currentNumber = sync_currentNumber body\<rparr>,
      trace = map SendEmail
                (filter (\<lambda>v. \<not> array_includes (order_ids disk) (field_of v ''id'')) os)
              @ [SaveQueueData \<lparr>orders = map (stored_order e) os,
                               currentPrefix = sync_currentPrefix body,
                               currentNumber = sync_currentNumber body\<rparr>]\<rparr>"
    by (simp add: sync_accepted)
  then show "reports_success (response (sync e body disk))"
    and "currentPrefix (store (sync e body disk)) = sync_currentPrefix body"
    and "currentNumber (store (sync e body disk)) = sync_currentNumber body"
    by simp_all
next
  assume a: "sync_orders body = OrdersArray os \<and> truthy (sync_currentPrefix body)
      \<and> truthy (sync_currentNumber body) \<and> \<not> list_all storable os"
  then have "response (sync e body disk) = ServerError" and "store (sync e body disk) = disk"
    using sync_thrown by blast+
  then show "http_status (response (sync e body disk)) = 500"
    and "store (sync e body disk) = disk"
    by simp_all
next
  assume "\<not> truthy (sync_currentPrefix body)
        \<or> (\<not> truthy (sync_currentNumber body) \<and> sync_currentNumber body \<noteq> JNum 0)"
  then have "\<not> truthy (sync_currentPrefix body) \<or> \<not> truthy (sync_currentNumber body)"
    by blast
  then show "http_status (response (sync e body disk)) = 400"
    and "store (sync e body disk) = disk"
    and "trace (sync e body disk) = []"
    by (rule sync_invalid)+
qed

text \<open>
  The theorem at an accepted request, at an array with a null element, at an order whose
  \<^verbatim>\<open>createdAt\<close> is an object with an own \<^verbatim>\<open>toString\<close>, at an empty prefix and at an
  absent number.
\<close>

theorem sync_sequencer_fields_witness:
  "sync_orders sync_B = OrdersArray [JObj order_B] \<and> truthy (sync_currentPrefix sync_B)
   \<and> truthy (sync_currentNumber sync_B) \<and> list_all storable [JObj order_B]
   \<and> currentPrefix (store (sync env_up sync_B queue_A)) = JStr ''A''
   \<and> currentNumber (store (sync env_up sync_B queue_A)) = JNum 3
   \<and> sync_orders sync_null = OrdersArray [JObj order_B, Null]
   \<and> truthy (sync_currentPrefix sync_null) \<and> truthy (sync_currentNumber sync_null)
   \<and> \<not> list_all storable [JObj order_B, Null]
   \<and> http_status (response (sync env_up sync_null queue_A)) = 500
   \<and> store (sync env_up sync_null queue_A) = queue_A
   \<and> sync_orders sync_bad_date = OrdersArray [JObj order_D]
   \<and> truthy (sync_currentPrefix sync_bad_date) \<and> truthy (sync_currentNumber sync_bad_date)
   \<and> \<not> list_all storable [JObj order_D]
   \<and> http_status (response (sync env_up sync_bad_date queue_A)) = 500
   \<and> store (sync env_up sync_bad_date queue_A) = queue_A
   \<and> \<not> truthy (sync_currentPrefix sync_no_prefix)
   \<and> http_status (response (sync env_up sync_no_prefix queue_A)) = 400
   \<and> store (sync env_up sync_no_prefix queue_A) = queue_A
   \<and> \<not> truthy (sync_currentNumber sync_no_number)
   \<and> sync_currentNumber sync_no_number \<noteq> JNum 0
   \<and> http_status (response (sync env_up sync_no_number queue_A)) = 400
   \<and> store (sync env_up sync_no_number queue_A) = queue_A"
  using sync_sequencer_fields [of sync_B "[JObj order_B]" env_up queue_A]
    sync_sequencer_fields [of sync_null "[JObj order_B, Null]" env_up queue_A]
    sync_sequencer_fields [of sync_bad_date "[JObj order_D]" env_up queue_A]
    sync_sequencer_fields [of sync_no_prefix "[JObj order_B]" env_up queue_A]
    sync_sequencer_fields [of sync_no_number "[JObj order_B]" env_up queue_A]
  by (simp add: sync_B_def sync_null_def sync_bad_date_def sync_no_prefix_def
      sync_no_number_def storable_def order_B_def order_D_def get_field_def)

section \<open>Retrying a sync\<close>

text \<open>
  Claim C5: for every stored queue and every sync request, the number of stored orders
  after the request was applied twice (at any two times) is the number of stored orders
  after it was applied once. No order is stored twice by the retry.
\<close>

theorem sync_twice_same_count:
  "length (orders (store (sync e2 body (store (sync e1 body disk)))))
   = length (orders (store (sync e1 body disk)))"
proof (cases "reports_success (response (sync e1 body disk))")
  case True
  then obtain os where os: "sync_orders body = OrdersArray os" and st: "list_all storable os"
    using sync_success_cases(1) by blast
  from True have p: "truthy (sync_currentPrefix body)" and n: "truthy (sync_currentNumber body)"
    by (rule sync_success_cases)+
  from os p n st have "\<And>e d. length (orders (store (sync e body d))) = length os"
    by (simp add: sync_accepted)
  then show ?thesis by simp
next
  case False
  then have 1: "store (sync e1 body disk) = disk"
    by (rule sync_store_unchanged)
  have "\<not> reports_success (response (sync e2 body disk))"
  proof
    assume s: "reports_success (response (sync e2 body disk))"
    then obtain os where os: "sync_orders body = OrdersArray os" and st: "list_all storable os"
      using sync_success_cases(1) by blast
    from s have "truthy (sync_currentPrefix body)" and "truthy (sync_currentNumber body)"
      by (rule sync_success_cases)+
    with os st have "reports_success (response (sync e1 body disk))"
      by (simp add: sync_accepted)
    with False show False by contradiction
  qed
  then have "store (sync e2 body disk) = disk"
    by (rule sync_store_unchanged)
  with 1 show ?thesis by simp
qed

section \<open>The channels of a new order\<close>

text \<open>
  The stored queue holds order A and the client syncs order B, which is new: the sync is
  accepted and B is not announced on the administrators' WhatsApp. The sync handler calls
  the e-mail adapter only.
\<close>

theorem sync_new_order_email_only:
  "sync_orders sync_B = OrdersArray [JObj order_B]
   \<and> \<not> array_includes (order_ids queue_A) (get_field order_B ''id'')
   \<and> reports_success (response (sync env_up sync_B queue_A))
   \<and> AdminWhatsApp \<notin> channels_for order_B (trace (sync env_up sync_B queue_A))"
  by (simp add: env_up_def order_A_def order_B_def queue_A_def sync_B_def sync_def loadQueueData_def
      saveQueueData_def is_new_def field_of_def process_order_def new_Date_def get_field_def
      set_field_def array_includes_def order_ids_def Let_def channels_for_def)

text \<open>
  Claim C6, as amended: for every order that add-and-notify accepts, the channels on which
  it is announced are e-mail and the administrators' WhatsApp, and the customer's WhatsApp
  exactly when the \<^verbatim>\<open>customerPhone\<close> of the request is truthy; for every new order of an
  accepted sync (an order of the array whose id the stored orders do not include), the
  only channel is e-mail.
\<close>

theorem new_order_channels:
  "(add_order ab = Some ord
    \<longrightarrow> channels_for ord (trace (add_and_notify e ab disk))
        = (if truthy (add_customerPhone ab)
           then {EmailChannel, AdminWhatsApp, CustomerWhatsApp}
           else {EmailChannel, AdminWhatsApp}))
   \<and> (sync_orders sb = OrdersArray os \<and> reports_success (response (sync e sb disk))
       \<and> JObj ord \<in> set os \<and> \<not> array_includes (order_ids disk) (get_field ord ''id'')
    \<longrightarrow> channels_for ord (trace (sync e sb disk)) = {EmailChannel})"
proof (intro conjI impI)
  assume "add_order ab = Some ord"
  then show "channels_for ord (trace (add_and_notify e ab disk))
        = (if truthy (add_customerPhone ab)
           then {EmailChannel, AdminWhatsApp, CustomerWhatsApp}
           else {EmailChannel, AdminWhatsApp})"
    by (auto simp add: add_and_notify_Some channels_for_def)
next
  assume a: "sync_orders sb = OrdersArray os \<and> reports_success (response (sync e sb disk))
       \<and> JObj ord \<in> set os \<and> \<not> array_includes (order_ids disk) (get_field ord ''id'')"
  then have "truthy (sync_currentPrefix sb)" and "truthy (sync_currentNumber sb)"
    using sync_success_cases(2,3) by blast+
  moreover from a have "list_all storable os"
    using sync_success_cases(1) by fastforce
  moreover have "field_of (JObj ord) ''id'' = get_field ord ''id''"
    by (simp add: field_of_def)
  ultimately show "channels_for ord (trace (sync e sb disk)) = {EmailChannel}"
    using a by (auto simp add: sync_accepted channels_for_emails)
qed

text \<open>
  The theorem at an add-and-notify request with a customer phone (all adapters rejecting)
  and at the sync of the example above.
\<close>

theorem new_order_channels_witness:
  "add_order add_A = Some order_A
   \<and> channels_for order_A (trace (add_and_notify env_down add_A queue_AB))
       = {EmailChannel, AdminWhatsApp, CustomerWhatsApp}
   \<and> sync_orders sync_B = OrdersArray [JObj order_B]
   \<and> reports_success (response (sync env_up sync_B queue_A))
   \<and> JObj order_B \<in> set [JObj order_B]
   \<and> \<not> array_includes (order_ids queue_A) (get_field order_B ''id'')
   \<and> channels_for order_B (trace (sync env_up sync_B queue_A)) = {EmailChannel}"
proof -
  have 1: "add_order add_A = Some order_A" and 2: "truthy (add_customerPhone add_A)"
    by (simp_all add: add_A_def)
  have 3: "sync_orders sync_B = OrdersArray [JObj order_B]"
    by (simp add: sync_B_def)
  have 4: "reports_success (response (sync env_up sync_B queue_A))"
    by (simp add: env_up_def order_A_def order_B_def queue_A_def sync_B_def sync_def loadQueueData_def
      saveQueueData_def is_new_def field_of_def process_order_def new_Date_def get_field_def
      set_field_def array_includes_def order_ids_def Let_def)
  have 5: "\<not> array_includes (order_ids queue_A) (get_field order_B ''id'')"
    by (simp add: queue_A_def order_A_def order_B_def order_ids_def get_field_def array_includes_def)
  from new_order_channels [where ab = add_A and ord = order_A and e = env_down
      and disk = queue_AB]
    new_order_channels [where sb = sync_B and os = "[JObj order_B]" and ord = order_B
      and e = env_up and disk = queue_A]
    1 2 3 4 5
  show ?thesis by simp
qed

section \<open>Unique ids\<close>

text \<open>
  Starting from the fresh queue, which has unique ids, the same add-and-notify request is
  served twice: the stored orders then hold the id A twice. The handler pushes the order
  without looking at the stored ids.
\<close>

theorem add_and_notify_repeats_id:
  "unique_ids (fresh_queue (JStr ''A''))
   \<and> \<not> unique_ids (store (add_and_notify env_up add_A
                      (store (add_and_notify env_up add_A (fresh_queue (JStr ''A''))))))"
  by (simp add: env_up_def order_A_def add_A_def fresh_queue_def add_and_notify_def allSettled_def
      loadQueueData_def saveQueueData_def order_ids_def get_field_def unique_ids_def Let_def)

text \<open>
  Claim C7, as amended: update-status preserves the uniqueness of the stored ids, for every
  request; add-and-notify preserves it for every order whose id is not among the stored
  ids; and after an accepted sync the stored ids are unique exactly when the ids of the
  submitted array are.
\<close>

theorem unique_ids_preserved:
  "(unique_ids disk \<longrightarrow> unique_ids (store (update_status e ub disk)))
   \<and> (unique_ids disk \<and> add_order ab = Some ord \<and> get_field ord ''id'' \<notin> set (order_ids disk)
      \<longrightarrow> unique_ids (store (add_and_notify e ab disk)))
   \<and> (sync_orders sb = OrdersArray os \<and> reports_success (response (sync e sb disk))
      \<longrightarrow> unique_ids (store (sync e sb disk)) = distinct (map (\<lambda>v. field_of v ''id'') os))"
proof (intro conjI impI)
  assume "unique_ids disk"
  then show "unique_ids (store (update_status e ub disk))"
    by (simp add: unique_ids_def order_ids_update_status)
next
  assume "unique_ids disk \<and> add_order ab = Some ord \<and> get_field ord ''id'' \<notin> set (order_ids disk)"
  then show "unique_ids (store (add_and_notify e ab disk))"
    by (simp add: add_and_notify_Some unique_ids_def order_ids_def)
next
  assume a: "sync_orders sb = OrdersArray os \<and> reports_success (response (sync e sb disk))"
  then have p: "truthy (sync_currentPrefix sb)" and n: "truthy (sync_currentNumber sb)"
    using sync_success_cases(2,3) by blast+
  from a have st: "list_all storable os"
    using sync_success_cases(1) by fastforce
  then have eq: "map (\<lambda>v. get_field (stored_order e v) ''id'') os
      = map (\<lambda>v. field_of v ''id'') os"
    by (simp add: stored_order_id list_all_iff)
  from a p n st have "order_ids (store (sync e sb disk))
      = map (\<lambda>v. get_field (stored_order e v) ''id'') os"
    by (simp add: sync_accepted order_ids_def comp_def)
  with eq
  show "unique_ids (store (sync e sb disk)) = distinct (map (\<lambda>v. field_of v ''id'') os)"
    by (simp only: unique_ids_def)
qed

text \<open>The theorem at one request of each handler.\<close>

theorem unique_ids_preserved_witness:
  "unique_ids queue_AB
   \<and> unique_ids (store (update_status env_up status_B queue_AB))
   \<and> unique_ids queue_A \<and> add_order add_B = Some order_B
   \<and> get_field order_B ''id'' \<notin> set (order_ids queue_A)
   \<and> unique_ids (store (add_and_notify env_up add_B queue_A))
   \<and> sync_orders sync_B = OrdersArray [JObj order_B]
   \<and> reports_success (response (sync env_up sync_B queue_A))
   \<and> unique_ids (store (sync env_up sync_B queue_A))"
proof -
  have 1: "unique_ids queue_AB" and 2: "unique_ids queue_A"
    by (simp_all add: queue_AB_def queue_A_def order_A_def order_B_def unique_ids_def order_ids_def
      get_field_def)
  have 3: "add_order add_B = Some order_B"
    by (simp add: add_B_def)
  have 4: "get_field order_B ''id'' \<notin> set (order_ids queue_A)"
    by (simp add: queue_A_def order_A_def order_B_def order_ids_def get_field_def)
  have 5: "sync_orders sync_B = OrdersArray [JObj order_B]"
    by (simp add: sync_B_def)
  have 6: "reports_success (response (sync env_up sync_B queue_A))"
    by (simp add: env_up_def order_A_def order_B_def queue_A_def sync_B_def sync_def loadQueueData_def
      saveQueueData_def is_new_def field_of_def process_order_def new_Date_def get_field_def
      set_field_def array_includes_def order_ids_def Let_def)
  from unique_ids_preserved [where disk = queue_AB and e = env_up and ub = status_B]
    unique_ids_preserved [where disk = queue_A and e = env_up and ab = add_B and ord = order_B
      and sb = sync_B and os = "[JObj order_B]"]
    1 2 3 4 5 6
  show ?thesis by simp
qed

section \<open>The status of an update-status request\<close>

text \<open>
  The request sets the status of the stored order A to \<^verbatim>\<open>banana\<close>, which is none of the
  six statuses of the specification: the response is the success and the stored status is
  \<^verbatim>\<open>banana\<close>. The handler tests the status for truthiness only.
\<close>

theorem update_status_takes_any_status:
  "\<not> spec_status_valid (upd_status status_banana)
   \<and> response (update_status env_up status_banana queue_A) = StatusOk
   \<and> store (update_status env_up status_banana queue_A)
       = queue_A\<lparr>orders := [set_field order_A ''status'' (JStr ''banana'')]\<rparr>
   \<and> store (update_status env_up status_banana queue_A) \<noteq> queue_A"
  by (simp add: env_up_def order_A_def queue_A_def status_banana_def update_status_def
      loadQueueData_def saveQueueData_def get_field_def set_field_def Let_def spec_status_valid_def)

text \<open>
  Claim C8, as amended: for every update-status request whose status is falsy (absent,
  null, the empty string, ...), the request is refused with the 400 response of the
  missing id or status, the stored queue data is unchanged and there is no effect.
\<close>

theorem update_status_refuses_falsy_status:
  assumes "\<not> truthy (upd_status body)"
  shows "response (update_status e body disk) = BadRequest IdOrStatusMissing
       \<and> store (update_status e body disk) = disk
       \<and> trace (update_status e body disk) = []"
  using assms by (simp add: update_status_def refuse_def)

text \<open>The theorem at a request with the empty string as status.\<close>

theorem update_status_refuses_falsy_status_witness:
  "\<not> truthy (upd_status status_empty)
   \<and> response (update_status env_up status_empty queue_A) = BadRequest IdOrStatusMissing
   \<and> store (update_status env_up status_empty queue_A) = queue_A
   \<and> trace (update_status env_up status_empty queue_A) = []"
proof -
  have h: "\<not> truthy (upd_status status_empty)"
    by (simp add: status_empty_def)
  from update_status_refuses_falsy_status [OF h] h show ?thesis by simp
qed

section \<open>The frame of update-status\<close>

text \<open>
  Claim C9: for every update-status request whose \<^verbatim>\<open>orderId\<close> matches a stored order,
  there is a position \<open>i\<close> of a matching order such that the stored queue data after the
  request differs from the one before at most in the \<^verbatim>\<open>status\<close> field of the order at
  \<open>i\<close>: the number of orders is the same, every order at another position is the same, the
  fields of the order at \<open>i\<close> other than \<^verbatim>\<open>status\<close> are the same (as a list, and so read
  by name), and the prefix and the number are the same.
\<close>

theorem update_status_frame:
  assumes "\<exists>ord \<in> set (orders disk). strict_eq (get_field ord ''id'') (upd_orderId body)"
  shows "\<exists>i < length (orders disk).
           strict_eq (get_field (orders disk ! i) ''id'') (upd_orderId body)
         \<and> length (orders (store (update_status e body disk))) = length (orders disk)
         \<and> (\<forall>j < length (orders disk). j \<noteq> i \<longrightarrow>
               orders (store (update_status e body disk)) ! j = orders disk ! j)
         \<and> filter (\<lambda>f. fst f \<noteq> ''status'') (orders (store (update_status e body disk)) ! i)
             = filter (\<lambda>f. fst f \<noteq> ''status'') (orders disk ! i)
         \<and> (\<forall>k. k \<noteq> ''status'' \<longrightarrow>
               get_field (orders (store (update_status e body disk)) ! i) k
               = get_field (orders disk ! i) k)
         \<and> currentPrefix (store (update_status e body disk)) = currentPrefix disk
         \<and> currentNumber (store (update_status e body disk)) = currentNumber disk"
proof -
  let ?p = "\<lambda>ord. strict_eq (get_field ord ''id'') (upd_orderId body)"
  from assms obtain i where i: "findIndex ?p (orders disk) = Some i"
    by (cases "findIndex ?p (orders disk)") (auto simp add: findIndex_None)
  then have len: "i < length (orders disk)" and p: "?p (orders disk ! i)"
    using findIndex_Some by blast+
  from update_status_store [of e body disk] i
  consider "store (update_status e body disk) = disk"
    | "store (update_status e body disk) =
          disk\<lparr>orders := (orders disk)[i := set_field (orders disk ! i) ''status'' (upd_status body)]\<rparr>"
    by auto
  then show ?thesis
  proof cases
    case 1
    with len p show ?thesis
      by (intro exI [of _ i]) simp
  next
    case 2
    with len p show ?thesis
      by (intro exI [of _ i])
        (simp add: get_field_set_field_other filter_set_field_other)
  qed
qed

text \<open>
  The theorem at a request that sets the status of the second of two stored orders.
\<close>

theorem update_status_frame_witness:
  "(\<exists>ord \<in> set (orders queue_AB). strict_eq (get_field ord ''id'') (upd_orderId status_B))
   \<and> store (update_status env_up status_B queue_AB)
       = queue_AB\<lparr>orders := [order_A, set_field order_B ''status'' (JStr ''pronto'')]\<rparr>
   \<and> (\<exists>i < length (orders queue_AB).
           strict_eq (get_field (orders queue_AB ! i) ''id'') (upd_orderId status_B)
         \<and> length (orders (store (update_status env_up status_B queue_AB))) = length (orders queue_AB)
         \<and> (\<forall>j < length (orders queue_AB). j \<noteq> i \<longrightarrow>
               orders (store (update_status env_up status_B queue_AB)) ! j = orders queue_AB ! j)
         \<and> filter (\<lambda>f. fst f \<noteq> ''status'') (orders (store (update_status env_up status_B queue_AB)) ! i)
             = filter (\<lambda>f. fst f \<noteq> ''status'') (orders queue_AB ! i)
         \<and> (\<forall>k. k \<noteq> ''status'' \<longrightarrow>
               get_field (orders (store (update_status env_up status_B queue_AB)) ! i) k
               = get_field (orders queue_AB ! i) k)
         \<and> currentPrefix (store (update_status env_up status_B queue_AB)) = currentPrefix queue_AB
         \<and> currentNumber (store (update_status env_up status_B queue_AB)) = currentNumber queue_AB)"
proof -
  have h: "\<exists>ord \<in> set (orders queue_AB). strict_eq (get_field ord ''id'') (upd_orderId status_B)"
    by (simp add: queue_AB_def order_A_def order_B_def status_B_def get_field_def)
  have s: "store (update_status env_up status_B queue_AB)
       = queue_AB\<lparr>orders := [order_A, set_field order_B ''status'' (JStr ''pronto'')]\<rparr>"
    by (simp add: env_up_def order_A_def order_B_def queue_AB_def status_B_def update_status_def
      loadQueueData_def saveQueueData_def get_field_def set_field_def Let_def)
  from update_status_frame [OF h, of env_up] h s show ?thesis by blast
qed

section \<open>The order count of the sync response\<close>

text \<open>
  Claim C10: for every sync request that succeeds, the \<^verbatim>\<open>orderCount\<close> of the response is
  the length of the orders array of the body, which is also the number of orders of the
  queue data that the request saved.
\<close>

theorem sync_orderCount:
  assumes "response (sync e body disk) = SyncOk n"
  shows "\<exists>os. sync_orders body = OrdersArray os \<and> n = length os
            \<and> length (orders (store (sync e body disk))) = n"
proof -
  from assms have s: "reports_success (response (sync e body disk))" by simp
  then obtain os where os: "sync_orders body = OrdersArray os" and st: "list_all storable os"
    using sync_success_cases(1) by blast
  from s have "truthy (sync_currentPrefix body)" and "truthy (sync_currentNumber body)"
    by (rule sync_success_cases)+
  with os st have "sync e body disk = \<lparr>response = SyncOk (length os),
      store = \<lparr>orders = map (stored_order e) os, currentPrefix = sync_currentPrefix body,
               currentNumber = sync_currentNumber body\<rparr>,
      trace = map SendEmail
                (filter (\<lambda>v. \<not> array_includes (order_ids disk) (field_of v ''id'')) os)
              @ [SaveQueueData \<lparr>orders = map (stored_order e) os,
                               currentPrefix = sync_currentPrefix body,
                               currentNumber = sync_currentNumber body\<rparr>]\<rparr>"
    by (simp add: sync_accepted)
  with assms os show ?thesis by simp
qed

text \<open>
  The theorem at a request: the stored queue holds two orders, the body holds one, and the
  count of the response is 1.
\<close>

theorem sync_orderCount_witness:
  "response (sync env_up sync_B queue_AB) = SyncOk 1
   \<and> length (orders queue_AB) = 2
   \<and> (\<exists>os. sync_orders sync_B = OrdersArray os \<and> 1 = length os
          \<and> length (orders (store (sync env_up sync_B queue_AB))) = 1)"
proof -
  have r: "response (sync env_up sync_B queue_AB) = SyncOk 1"
    by (simp add: env_up_def order_A_def order_B_def queue_AB_def sync_B_def sync_def loadQueueData_def
      saveQueueData_def is_new_def field_of_def process_order_def new_Date_def get_field_def
      set_field_def array_includes_def order_ids_def Let_def)
  have "length (orders queue_AB) = 2"
    by (simp add: queue_AB_def)
  with sync_orderCount [OF r] r show ?thesis by simp
qed

end
